theory Spec2Isabelle
  imports Main
begin

section \<open>Python values and their textual rendering\<close>

text \<open>
  The unlock-state table of \<^verbatim>\<open>AchievementMonitor\<close> is keyed by \<^verbatim>\<open>str(key)\<close> where
  \<^verbatim>\<open>key = (group_id, steamid, appid)\<close>. Python renders a tuple as its elements' \<^verbatim>\<open>repr\<close>
  joined by \<^verbatim>\<open>", "\<close> between parentheses. The elements here are strings and integers.
  A \<^typ>\<open>char\<close> stands for the code point of the same number (U+0000 to U+00FF).
\<close>

datatype py_value = PyInt int | PyStr string

definition digit_char :: "nat \<Rightarrow> char" where
  "digit_char d = ''0123456789'' ! (d mod 10)"

fun str_nat :: "nat \<Rightarrow> string" where
  "str_nat n = (if n < 10 then [digit_char n] else str_nat (n div 10) @ [digit_char (n mod 10)])"

declare str_nat.simps [simp del]

text \<open>\<^verbatim>\<open>str(i)\<close> for a Python \<^verbatim>\<open>int\<close>: decimal digits, with a leading minus sign below zero.\<close>

definition str_int :: "int \<Rightarrow> string" where
  "str_int i = (if i < 0 then CHR ''-'' # str_nat (nat (- i)) else str_nat (nat i))"

definition hex_char :: "nat \<Rightarrow> char" where
  "hex_char d = ''0123456789abcdef'' ! (d mod 16)"

definition printable :: "char \<Rightarrow> bool" where
  "printable c = (let n = (of_char c :: nat) in
     (32 \<le> n \<and> n < 127) \<or> (161 \<le> n \<and> n \<noteq> 173))"

text \<open>
  One character of \<^verbatim>\<open>repr(s)\<close>, for the quote character \<open>q\<close> that was chosen: the quote
  and the backslash are escaped, tab, newline and carriage return have their short
  escapes, any other non-printable character is written \<^verbatim>\<open>\xhh\<close>.
\<close>

definition repr_char :: "char \<Rightarrow> char \<Rightarrow> string" where
  "repr_char q c =
     (if c = q \<or> c = CHR 0x5C then [CHR 0x5C, c]
      else if c = CHR 0x09 then [CHR 0x5C, CHR ''t'']
      else if c = CHR 0x0A then [CHR 0x5C, CHR ''n'']
      else if c = CHR 0x0D then [CHR 0x5C, CHR ''r'']
      else if \<not> printable c then
        [CHR 0x5C, CHR ''x'', hex_char (of_char c div 16), hex_char (of_char c mod 16)]
      else [c])"

text \<open>
  \<^verbatim>\<open>repr(s)\<close> for a Python \<^verbatim>\<open>str\<close>: single quotes, unless the string holds a single quote
  and no double quote.
\<close>

definition repr_quote :: "string \<Rightarrow> char" where
  "repr_quote s = (if CHR 0x27 \<in> set s \<and> CHR 0x22 \<notin> set s then CHR 0x22 else CHR 0x27)"

definition repr_str :: "string \<Rightarrow> string" where
  "repr_str s = (let q = repr_quote s in [q] @ concat (map (repr_char q) s) @ [q])"

fun py_repr :: "py_value \<Rightarrow> string" where
  "py_repr (PyInt i) = str_int i"
| "py_repr (PyStr s) = repr_str s"

text \<open>\<^verbatim>\<open>str((group_id, steamid, appid))\<close>, the key of the unlock-state table.\<close>

definition str_key :: "string \<Rightarrow> string \<Rightarrow> py_value \<Rightarrow> string" where
  "str_key group_id steamid appid =
     ''('' @ repr_str group_id @ '', '' @ repr_str steamid @ '', '' @ py_repr appid @ '')''"

section \<open>The remote API\<close>

text \<open>
  The three endpoints the monitor calls, with the parameters it sends:
  \<^verbatim>\<open>GetPlayerAchievements\<close> (key, steamid, appid, l), \<^verbatim>\<open>GetSchemaForGame\<close> (appid, key, l)
  and \<^verbatim>\<open>GetGlobalAchievementPercentagesForApp\<close> (gameid).
\<close>

datatype request =
    GetPlayerAchievements string string int string
  | GetSchemaForGame int string string
  | GetGlobalAchievementPercentagesForApp int

text \<open>
  The entries of the three payloads. A field is \<open>None\<close> when the JSON object lacks the
  key. String fields hold strings and \<^verbatim>\<open>achieved\<close> holds an integer, as the API documents;
  \<^verbatim>\<open>percent\<close> is only handed on, and is kept as the text of its JSON value.
\<close>

record player_ach =
  pa_apiname :: "string option"
  pa_achieved :: "int option"
  pa_name :: "string option"
  pa_description :: "string option"

record schema_ach =
  sa_name :: "string option"
  sa_displayName :: "string option"
  sa_description :: "string option"
  sa_icon :: "string option"
  sa_icongray :: "string option"

record percent_ach =
  pc_name :: "string option"
  pc_percent :: "string option"

text \<open>
  What \<^verbatim>\<open>response.json()\<close> gives: \<open>BadJson\<close> when it raises; \<open>PlayerStats achs\<close> for
  \<^verbatim>\<open>{"playerstats": {"achievements": achs}}\<close>; \<open>GameSchema achs\<close> for
  \<^verbatim>\<open>{"game": {"availableGameStats": {"achievements": achs}}}\<close>; \<open>Percentages achs\<close> for
  \<^verbatim>\<open>{"achievementpercentages": {"achievements": achs}}\<close>; \<open>OtherJson\<close> for a JSON object
  with none of these keys.
\<close>

datatype body = BadJson | OtherJson
  | PlayerStats "player_ach list"
  | GameSchema "schema_ach list"
  | Percentages "percent_ach list"

text \<open>
  A request either raises (time-out, connection error: \<open>NetError\<close>) or yields a status
  code and a body.
\<close>

datatype response = NetError | Http nat body

text \<open>
  What happens when a durable file is rewritten by
  \<^verbatim>\<open>with open(path, "w") as f: json.dump(..., f)\<close> inside a \<^verbatim>\<open>try\<close> whose \<^verbatim>\<open>except\<close>
  swallows every exception: the whole text is written (\<open>Written\<close>); \<^verbatim>\<open>open\<close> raises and
  the file is not touched (\<open>OpenFails\<close>); or \<^verbatim>\<open>open\<close> succeeds, which empties the file, and
  the write raises before the text is complete (\<open>WriteFails\<close>).
\<close>

datatype disk_write = Written | OpenFails | WriteFails

text \<open>
  The environment of one call: the remote server, which answers the \<open>n\<close>-th request ever
  sent, and the outcome of rewriting a durable file during the call.
\<close>

record env =
  server :: "nat \<Rightarrow> request \<Rightarrow> response"
  disk :: disk_write

section \<open>The monitor's state\<close>

record detail =
  d_name :: string
  d_description :: string
  d_icon :: "string option"
  d_icon_gray :: "string option"
  d_percent :: "string option"

text \<open>
  A details mapping is a Python \<^verbatim>\<open>dict\<close> from apiname to detail record, kept in insertion
  order; \<open>dict_set\<close> is \<^verbatim>\<open>d[k] = v\<close>.
\<close>

type_synonym details = "(string \<times> detail) list"

fun dict_set :: "'k \<Rightarrow> 'v \<Rightarrow> ('k \<times> 'v) list \<Rightarrow> ('k \<times> 'v) list" where
  "dict_set k v [] = [(k, v)]"
| "dict_set k v (p # ps) = (if fst p = k then (k, v) # ps else p # dict_set k v ps)"

text \<open>
  A durable JSON file: it does not exist (\<open>Absent\<close>), it holds the complete text of a value
  (\<open>Holds\<close>), or it holds an empty or cut-off text, which \<^verbatim>\<open>json.load\<close> rejects
  (\<open>Damaged\<close>).
\<close>

datatype 'a json_file = Absent | Damaged | Holds 'a

text \<open>
  The fields of \<^verbatim>\<open>AchievementMonitor\<close>, the two durable files and the log of the requests
  sent so far. A stored value of \<^verbatim>\<open>initial_achievements\<close>
  is a list that the code writes as \<^verbatim>\<open>list(current_achievements)\<close> and only reads through
  \<^verbatim>\<open>set(...)\<close>; it is kept as the set of its elements.
\<close>

record world =
  initial_achievements :: "string \<rightharpoonup> string set"
  achievement_blacklist :: "string set"
  details_cache :: "(string \<times> int) \<rightharpoonup> details"
  achievements_file :: "(string \<rightharpoonup> string set) json_file"
  blacklist_file :: "string set json_file"
  sent :: "request list"

definition save_blacklist :: "env \<Rightarrow> world \<Rightarrow> world" where
  "save_blacklist e w =
     (case disk e of
        Written \<Rightarrow> w\<lparr>blacklist_file := Holds (achievement_blacklist w)\<rparr>
      | OpenFails \<Rightarrow> w
      | WriteFails \<Rightarrow> w\<lparr>blacklist_file := Damaged\<rparr>)"

definition save_achievements_cache :: "env \<Rightarrow> world \<Rightarrow> world" where
  "save_achievements_cache e w =
     (case disk e of
        Written \<Rightarrow> w\<lparr>achievements_file := Holds (initial_achievements w)\<rparr>
      | OpenFails \<Rightarrow> w
      | WriteFails \<Rightarrow> w\<lparr>achievements_file := Damaged\<rparr>)"

text \<open>\<^verbatim>\<open>client.get\<close>: the request is logged and the server's answer returned.\<close>

definition http_get :: "env \<Rightarrow> request \<Rightarrow> world \<Rightarrow> response \<times> world" where
  "http_get e rq w = (server e (length (sent w)) rq, w\<lparr>sent := sent w @ [rq]\<rparr>)"

section \<open>get_player_achievements\<close>

text \<open>Control flow of a loop body: go on with the loop, or return from the function.\<close>

datatype 'a flow = Next | Return 'a

text \<open>Python truthiness of \<^verbatim>\<open>ach.get("description")\<close>.\<close>

definition truthy :: "string option \<Rightarrow> bool" where
  "truthy v = (case v of None \<Rightarrow> False | Some s \<Rightarrow> s \<noteq> [])"

text \<open>
  The set comprehension \<^verbatim>\<open>{ach["apiname"] for ach in achievements if ach.get("achieved", 0) == 1}\<close>;
  \<open>None\<close> is the \<^verbatim>\<open>KeyError\<close> of an achieved entry without \<^verbatim>\<open>apiname\<close>.
\<close>

fun unlocked_names :: "player_ach list \<Rightarrow> string list option" where
  "unlocked_names [] = Some []"
| "unlocked_names (ach # achs) =
     (if (case pa_achieved ach of None \<Rightarrow> 0 | Some v \<Rightarrow> v) = 1 then
        (case pa_apiname ach of
           None \<Rightarrow> None
         | Some n \<Rightarrow> map_option ((#) n) (unlocked_names achs))
      else unlocked_names achs)"

text \<open>
  The body of the \<^verbatim>\<open>try\<close> of one attempt, given the answer to its request. Every exception
  (network error, \<^verbatim>\<open>json()\<close> failure, \<^verbatim>\<open>KeyError\<close>) is caught and the loop goes on.
\<close>

definition attempt_body :: "response \<Rightarrow> string set option flow" where
  "attempt_body resp =
     (case resp of
        NetError \<Rightarrow> Next
      | Http status b \<Rightarrow>
          if status = 200 then
            (case b of
               PlayerStats achievements \<Rightarrow>
                 (case unlocked_names achievements of
                    None \<Rightarrow> Next
                  | Some unlocked \<Rightarrow>
                      if list_ex (\<lambda>ach. truthy (pa_description ach)) achievements
                      then Return (Some (set unlocked))
                      else Next)
             | _ \<Rightarrow> Next)
          else if status = 401 then Return None
          else Next)"

text \<open>\<^verbatim>\<open>for attempt in range(3)\<close>, over the list of attempt numbers.\<close>

fun attempt_loop ::
  "env \<Rightarrow> request \<Rightarrow> nat list \<Rightarrow> world \<Rightarrow> string set option flow \<times> world" where
  "attempt_loop e rq [] w = (Next, w)"
| "attempt_loop e rq (attempt # rest) w =
     (let (resp, w') = http_get e rq w in
      case attempt_body resp of
        Return r \<Rightarrow> (Return r, w')
      | Next \<Rightarrow> attempt_loop e rq rest w')"

text \<open>\<^verbatim>\<open>for lang in lang_list\<close>.\<close>

fun lang_loop ::
  "env \<Rightarrow> (string \<Rightarrow> request) \<Rightarrow> string list \<Rightarrow> world \<Rightarrow> string set option flow \<times> world" where
  "lang_loop e mk [] w = (Next, w)"
| "lang_loop e mk (lang # rest) w =
     (case attempt_loop e (mk lang) [0, 1, 2] w of
        (Return r, w') \<Rightarrow> (Return r, w')
      | (Next, w') \<Rightarrow> lang_loop e mk rest w')"

text \<open>
  \<^verbatim>\<open>all_failed\<close> is only reset right before the \<^verbatim>\<open>return unlocked\<close>, so it is true
  whenever the loops run to their end.
\<close>

definition get_player_achievements ::
  "env \<Rightarrow> string \<Rightarrow> string \<Rightarrow> string \<Rightarrow> int \<Rightarrow> world \<Rightarrow> string set option \<times> world" where
  "get_player_achievements e api_key group_id steamid appid w =
     (if str_int appid \<in> achievement_blacklist w then (None, w)
      else
        (case lang_loop e (GetPlayerAchievements api_key steamid appid)
                [''schinese'', ''english'', ''en''] w of
           (Return r, w') \<Rightarrow> (r, w')
         | (Next, w') \<Rightarrow>
             (None, save_blacklist e
                (w'\<lparr>achievement_blacklist := insert (str_int appid) (achievement_blacklist w')\<rparr>))))"

section \<open>check_new_achievements and clear_game_achievements\<close>

text \<open>
  The parameters \<^verbatim>\<open>player_name\<close> and \<^verbatim>\<open>game_name\<close> of \<^verbatim>\<open>check_new_achievements\<close> are
  not used by its body and are left out.
\<close>

definition check_new_achievements ::
  "env \<Rightarrow> string \<Rightarrow> string \<Rightarrow> string \<Rightarrow> int \<Rightarrow> world \<Rightarrow> string set \<times> world" where
  "check_new_achievements e api_key group_id steamid appid w =
     (let key = str_key group_id steamid (PyInt appid);
          (current_achievements, w1) = get_player_achievements e api_key group_id steamid appid w
      in case current_achievements of
           None \<Rightarrow> ({}, w1)
         | Some current \<Rightarrow>
             (let initial = (case initial_achievements w1 key of None \<Rightarrow> {} | Some s \<Rightarrow> s);
                  new_achievements = current - initial;
                  w2 = w1\<lparr>initial_achievements := (initial_achievements w1)(key \<mapsto> current)\<rparr>
              in (new_achievements, save_achievements_cache e w2)))"

definition clear_game_achievements :: "env \<Rightarrow> string \<Rightarrow> string \<Rightarrow> string \<Rightarrow> world \<Rightarrow> world" where
  "clear_game_achievements e group_id steamid appid w =
     (let key = str_key group_id steamid (PyStr appid) in
      if key \<in> dom (initial_achievements w) then
        save_achievements_cache e
          (w\<lparr>initial_achievements := (initial_achievements w)(key := None)\<rparr>)
      else w)"

section \<open>get_achievement_details\<close>

text \<open>The entry that the primary path builds from the schema, before the percentages are merged in.\<close>

record meta =
  m_name :: string
  m_description :: string
  m_icon :: "string option"
  m_icon_gray :: "string option"

definition to_icon_url :: "int \<Rightarrow> string option \<Rightarrow> string option" where
  "to_icon_url appid val =
     (case val of
        None \<Rightarrow> None
      | Some v \<Rightarrow>
          if v = [] then None
          else if take 7 v = ''http://'' \<or> take 8 v = ''https://'' then Some v
          else Some (''https://cdn.akamai.steamstatic.com/steamcommunity/public/images/apps/''
                     @ str_int appid @ ''/'' @ v @ ''.jpg''))"

text \<open>
  The loop filling \<^verbatim>\<open>achievements\<close> from the schema; \<open>None\<close> is the \<^verbatim>\<open>KeyError\<close> of an
  entry without \<^verbatim>\<open>name\<close>.
\<close>

fun schema_entries ::
  "int \<Rightarrow> schema_ach list \<Rightarrow> (string \<times> meta) list \<Rightarrow> (string \<times> meta) list option" where
  "schema_entries appid [] achievements = Some achievements"
| "schema_entries appid (ach # achs) achievements =
     (case sa_name ach of
        None \<Rightarrow> None
      | Some n \<Rightarrow>
          schema_entries appid achs
            (dict_set n
               \<lparr>m_name = (case sa_displayName ach of None \<Rightarrow> n | Some dn \<Rightarrow> dn),
                m_description = (case sa_description ach of None \<Rightarrow> [] | Some ds \<Rightarrow> ds),
                m_icon = to_icon_url appid (sa_icon ach),
                m_icon_gray = to_icon_url appid (sa_icongray ach)\<rparr>
               achievements))"

text \<open>The loop filling \<^verbatim>\<open>percents\<close>; \<open>None\<close> is the \<^verbatim>\<open>KeyError\<close> of an entry without \<^verbatim>\<open>name\<close>.\<close>

fun percent_entries ::
  "percent_ach list \<Rightarrow> (string \<times> string option) list \<Rightarrow> (string \<times> string option) list option"
  where
  "percent_entries [] percents = Some percents"
| "percent_entries (ach # achs) percents =
     (case pc_name ach of
        None \<Rightarrow> None
      | Some n \<Rightarrow> percent_entries achs (dict_set n (pc_percent ach) percents))"

text \<open>\<^verbatim>\<open>for apiname, ach in achievements.items(): details[apiname] = {...}\<close>.\<close>

fun merge_details ::
  "(string \<times> meta) list \<Rightarrow> (string \<times> string option) list \<Rightarrow> details \<Rightarrow> details" where
  "merge_details [] percents d = d"
| "merge_details ((apiname, ach) # rest) percents d =
     merge_details rest percents
       (dict_set apiname
          \<lparr>d_name = m_name ach, d_description = m_description ach,
           d_icon = m_icon ach, d_icon_gray = m_icon_gray ach,
           d_percent = (case map_of percents apiname of None \<Rightarrow> None | Some p \<Rightarrow> p)\<rparr>
          d)"

text \<open>
  The degraded path's loop over the per-player payload. The flag is \<open>False\<close> when an entry
  without \<^verbatim>\<open>apiname\<close> raised \<^verbatim>\<open>KeyError\<close>; the entries written before it stay.
\<close>

fun degraded_entries :: "player_ach list \<Rightarrow> details \<Rightarrow> bool \<times> details" where
  "degraded_entries [] d = (True, d)"
| "degraded_entries (ach # achs) d =
     (case pa_apiname ach of
        None \<Rightarrow> (False, d)
      | Some n \<Rightarrow>
          degraded_entries achs
            (dict_set n
               \<lparr>d_name = (case pa_name ach of None \<Rightarrow> n | Some nm \<Rightarrow> nm),
                d_description = (case pa_description ach of None \<Rightarrow> [] | Some ds \<Rightarrow> ds),
                d_icon = None, d_icon_gray = None, d_percent = None\<rparr>
               d))"

text \<open>
  \<^verbatim>\<open>for lang2 in lang_list\<close> of the degraded path. The flag is \<open>False\<close> when
  \<^verbatim>\<open>client.get\<close> raised: that exception leaves the loop and reaches the \<^verbatim>\<open>except\<close> of the
  enclosing \<^verbatim>\<open>try\<close>. It is \<open>True\<close> when the loop ended, by \<^verbatim>\<open>break\<close> or at the end of
  the list.
\<close>

fun degraded_loop ::
  "env \<Rightarrow> (string \<Rightarrow> request) \<Rightarrow> string list \<Rightarrow> details \<Rightarrow> world \<Rightarrow> (bool \<times> details) \<times> world"
  where
  "degraded_loop e mk [] d w = ((True, d), w)"
| "degraded_loop e mk (lang2 # rest) d w =
     (case http_get e (mk lang2) w of
        (NetError, w') \<Rightarrow> ((False, d), w')
      | (Http status b, w') \<Rightarrow>
          if status = 200 then
            (case b of
               PlayerStats achs \<Rightarrow>
                 (case degraded_entries achs d of
                    (False, d') \<Rightarrow> degraded_loop e mk rest d' w'
                  | (True, d') \<Rightarrow>
                      if list_ex (\<lambda>a. truthy (pa_description a)) achs then ((True, d'), w')
                      else degraded_loop e mk rest d' w')
             | _ \<Rightarrow> degraded_loop e mk rest d w')
          else degraded_loop e mk rest d w')"

text \<open>
  One iteration of \<^verbatim>\<open>for try_lang in lang_list\<close>: \<open>Continue\<close> goes to the next language
  (also after a caught exception), \<open>Break\<close> leaves the loop, \<open>Exit\<close> is a \<^verbatim>\<open>return\<close>
  from inside the loop.
\<close>

datatype step = Continue details | Break details | Exit details

definition merge_percentages ::
  "env \<Rightarrow> int \<Rightarrow> (string \<times> meta) list \<Rightarrow> details \<Rightarrow> world \<Rightarrow> step \<times> world" where
  "merge_percentages e appid achievements d w =
     (case http_get e (GetGlobalAchievementPercentagesForApp appid) w of
        (NetError, w') \<Rightarrow> (Continue d, w')
      | (Http status b, w') \<Rightarrow>
          (case (if status \<noteq> 200 then Some []
                 else percent_entries (case b of Percentages ps \<Rightarrow> ps | _ \<Rightarrow> []) []) of
             None \<Rightarrow> (Continue d, w')
           | Some percents \<Rightarrow>
               (let d' = merge_details achievements percents d in
                if list_ex (\<lambda>(apiname, a). m_description a \<noteq> []) achievements
                then (Break d', w') else (Continue d', w'))))"

definition schema_body ::
  "env \<Rightarrow> string \<Rightarrow> string \<Rightarrow> int \<Rightarrow> string list \<Rightarrow> string \<Rightarrow> details \<Rightarrow> world
     \<Rightarrow> step \<times> world" where
  "schema_body e api_key steamid appid lang_list try_lang d w =
     (case http_get e (GetSchemaForGame appid api_key try_lang) w of
        (NetError, w') \<Rightarrow> (Continue d, w')
      | (Http status b, w') \<Rightarrow>
          if status = 400 then
            (if api_key = [] \<or> steamid = [] then (Exit [], w')
             else
               (case degraded_loop e (GetPlayerAchievements api_key steamid appid) lang_list d w' of
                  ((True, d'), w2) \<Rightarrow> (Exit d', w2)
                | ((False, d'), w2) \<Rightarrow> (Continue d', w2)))
          else if status \<noteq> 200 then (Continue d, w')
          else
            (case b of
               BadJson \<Rightarrow> (Continue d, w')
             | _ \<Rightarrow>
                 (case schema_entries appid (case b of GameSchema achs \<Rightarrow> achs | _ \<Rightarrow> []) [] of
                    None \<Rightarrow> (Continue d, w')
                  | Some achievements \<Rightarrow> merge_percentages e appid achievements d w')))"

text \<open>
  The loop over the languages. In the result, \<open>Exit d\<close> is a \<^verbatim>\<open>return d\<close> from inside
  the loop and \<open>Break d\<close> is the loop left with \<^verbatim>\<open>details = d\<close>, by \<^verbatim>\<open>break\<close> or at the
  end of the list.
\<close>

fun schema_loop ::
  "env \<Rightarrow> string \<Rightarrow> string \<Rightarrow> int \<Rightarrow> string list \<Rightarrow> string list \<Rightarrow> details \<Rightarrow> world
     \<Rightarrow> step \<times> world" where
  "schema_loop e api_key steamid appid lang_list [] d w = (Break d, w)"
| "schema_loop e api_key steamid appid lang_list (try_lang # rest) d w =
     (case schema_body e api_key steamid appid lang_list try_lang d w of
        (Continue d', w') \<Rightarrow> schema_loop e api_key steamid appid lang_list rest d' w'
      | (Break d', w') \<Rightarrow> (Break d', w')
      | (Exit d', w') \<Rightarrow> (Exit d', w'))"

definition get_achievement_details ::
  "env \<Rightarrow> string \<Rightarrow> int \<Rightarrow> string \<Rightarrow> string \<Rightarrow> string \<Rightarrow> world \<Rightarrow> details \<times> world" where
  "get_achievement_details e group_id appid lang api_key steamid w =
     (if str_int appid \<in> achievement_blacklist w then ([], w)
      else
        (case details_cache w (group_id, appid) of
           Some cached \<Rightarrow> (cached, w)
         | None \<Rightarrow>
             (let lang_list = [lang, ''schinese'', ''english'', ''en''] in
              case schema_loop e api_key steamid appid lang_list lang_list [] w of
                (Exit d, w') \<Rightarrow> (d, w')
              | (Break d, w') \<Rightarrow>
                  (d, w'\<lparr>details_cache := (details_cache w')((group_id, appid) \<mapsto> d)\<rparr>)
              | (Continue d, w') \<Rightarrow>
                  (d, w'\<lparr>details_cache := (details_cache w')((group_id, appid) \<mapsto> d)\<rparr>))))"

section \<open>Notions used in the statements\<close>

text \<open>
  \<^verbatim>\<open>self.initial_achievements.get(str(key), set())\<close>: the stored baseline of an identity,
  empty when there is none.
\<close>

definition stored :: "world \<Rightarrow> string \<Rightarrow> string set" where
  "stored w key = (case initial_achievements w key of None \<Rightarrow> {} | Some s \<Rightarrow> s)"

text \<open>
  \<open>all_next e n rqs\<close>: the requests \<open>rqs\<close>, sent as the \<open>n\<close>-th and following ones, are all
  answered so that the attempt fails and the loop goes on.
\<close>

fun all_next :: "env \<Rightarrow> nat \<Rightarrow> request list \<Rightarrow> bool" where
  "all_next e n [] = True"
| "all_next e n (rq # rqs) = (attempt_body (server e n rq) = Next \<and> all_next e (Suc n) rqs)"

text \<open>\<open>frame w w'\<close>: nothing but the request log differs between the two worlds.\<close>

definition frame :: "world \<Rightarrow> world \<Rightarrow> bool" where
  "frame w w' =
     (initial_achievements w' = initial_achievements w \<and>
      achievement_blacklist w' = achievement_blacklist w \<and>
      details_cache w' = details_cache w \<and>
      achievements_file w' = achievements_file w \<and>
      blacklist_file w' = blacklist_file w)"

definition loop_run :: "env \<Rightarrow> world \<Rightarrow> string set option flow \<Rightarrow> world \<Rightarrow> bool" where
  "loop_run e w r w' =
     (frame w w' \<and>
      (\<exists>new. sent w' = sent w @ new \<and>
        (case r of
           Next \<Rightarrow> all_next e (length (sent w)) new
         | Return x \<Rightarrow>
             (\<exists>pre rq. new = pre @ [rq] \<and> all_next e (length (sent w)) pre \<and>
                attempt_body (server e (length (sent w) + length pre) rq) = Return x))))"

text \<open>
  The state of a monitor constructed on an empty data directory, before any request.
\<close>

definition cold_start :: world where
  "cold_start = \<lparr>initial_achievements = Map.empty, achievement_blacklist = {},
     details_cache = Map.empty, achievements_file = Absent, blacklist_file = Absent, sent = []\<rparr>"

definition ach :: "string \<Rightarrow> int \<Rightarrow> string \<Rightarrow> player_ach" where
  "ach n v d = \<lparr>pa_apiname = Some n, pa_achieved = Some v, pa_name = None, pa_description = Some d\<rparr>"

definition env_abc :: env where
  "env_abc = \<lparr>server = (\<lambda>n rq. Http 200 (PlayerStats
      [ach ''a'' 1 ''first'', ach ''b'' 1 ''second'', ach ''c'' 1 ''third''])), disk = Written\<rparr>"

definition env_a :: env where
  "env_a = \<lparr>server = (\<lambda>n rq. Http 200 (PlayerStats
      [ach ''a'' 1 ''first'', ach ''b'' 0 ''second''])), disk = Written\<rparr>"

definition env_down :: env where
  "env_down = \<lparr>server = (\<lambda>n rq. NetError), disk = Written\<rparr>"

definition env_private :: env where
  "env_private = \<lparr>server = (\<lambda>n rq. if n = 4 then Http 401 OtherJson else NetError), disk = Written\<rparr>"

definition world_ab :: world where
  "world_ab = cold_start\<lparr>initial_achievements := [str_key ''g'' ''s'' (PyInt 1) \<mapsto> {''a'', ''b''}]\<rparr>"

text \<open>
  \<^verbatim>\<open>__init__\<close>: the unlock-state table and the blacklist are loaded from their files and
  the details cache starts empty. A file that does not exist, a file whose text
  \<^verbatim>\<open>json.load\<close> rejects and a read that raises (the flag is \<open>False\<close>) all give the empty
  value. The request log is kept: the server goes on counting.
\<close>

definition init :: "bool \<Rightarrow> bool \<Rightarrow> world \<Rightarrow> world" where
  "init table_loads blacklist_loads w =
     w\<lparr>initial_achievements :=
         (case achievements_file w of
            Holds table \<Rightarrow> if table_loads then table else Map.empty
          | _ \<Rightarrow> Map.empty),
       details_cache := Map.empty,
       achievement_blacklist :=
         (case blacklist_file w of
            Holds blacklist \<Rightarrow> if blacklist_loads then blacklist else {}
          | _ \<Rightarrow> {})\<rparr>"

text \<open>
  The states that the monitor can be in: it is constructed on an empty data directory,
  or constructed again on the files it left, and its methods are called with arguments of
  the declared types, in any environment.
\<close>

inductive reachable :: "world \<Rightarrow> bool" where
  cold: "reachable cold_start"
| restart: "reachable w \<Longrightarrow> reachable (init table_loads blacklist_loads w)"
| fetch: "reachable w \<Longrightarrow> reachable (snd (get_player_achievements e api_key group_id steamid appid w))"
| details: "reachable w \<Longrightarrow>
     reachable (snd (get_achievement_details e group_id appid lang api_key steamid w))"
| check: "reachable w \<Longrightarrow> reachable (snd (check_new_achievements e api_key group_id steamid appid w))"
| clear: "reachable w \<Longrightarrow> reachable (clear_game_achievements e group_id steamid appid w)"

text \<open>
  \<open>int_keyed t\<close>: every key of the table \<open>t\<close> is the rendering of a tuple whose third
  component is an \<^verbatim>\<open>int\<close>. \<open>stored_int_keyed w\<close>: this holds of the table in memory and of
  the table in the file, when the file holds one.
\<close>

definition int_keyed :: "(string \<rightharpoonup> string set) \<Rightarrow> bool" where
  "int_keyed t = (\<forall>key \<in> dom t. \<exists>g s a. key = str_key g s (PyInt a))"

definition stored_int_keyed :: "world \<Rightarrow> bool" where
  "stored_int_keyed w =
     (int_keyed (initial_achievements w) \<and>
      (case achievements_file w of Holds table \<Rightarrow> int_keyed table | _ \<Rightarrow> True))"

text \<open>
  Concrete states and servers: a state in which game 1 is blacklisted although its details
  are cached; a server whose schema endpoint answers 400 while the per-player endpoint
  answers with a described achievement; servers whose schema endpoint answers with one
  described achievement while the percentages endpoint cannot be reached, or answers 500;
  and a server that cannot be reached at all, on a disk whose files cannot be opened for
  writing.
\<close>

definition detail_a :: detail where
  "detail_a = \<lparr>d_name = ''a'', d_description = ''first'', d_icon = None, d_icon_gray = None,
     d_percent = None\<rparr>"


definition env_degraded :: env where
  "env_degraded = \<lparr>server = (\<lambda>n rq. case rq of
       GetSchemaForGame appid key l \<Rightarrow> Http 400 OtherJson
     | GetPlayerAchievements key steamid appid l \<Rightarrow> Http 200 (PlayerStats [ach ''a'' 1 ''first''])
     | GetGlobalAchievementPercentagesForApp appid \<Rightarrow> NetError), disk = Written\<rparr>"

definition schema_a :: schema_ach where
  "schema_a = \<lparr>sa_name = Some ''a'', sa_displayName = Some ''A'', sa_description = Some ''first'',
     sa_icon = None, sa_icongray = None\<rparr>"

definition env_percent_down :: env where
  "env_percent_down = \<lparr>server = (\<lambda>n rq. case rq of
       GetSchemaForGame appid key l \<Rightarrow> Http 200 (GameSchema [schema_a])
     | GetPlayerAchievements key steamid appid l \<Rightarrow> NetError
     | GetGlobalAchievementPercentagesForApp appid \<Rightarrow> NetError), disk = Written\<rparr>"

definition env_percent_500 :: env where
  "env_percent_500 = \<lparr>server = (\<lambda>n rq. case rq of
       GetSchemaForGame appid key l \<Rightarrow> Http 200 (GameSchema [schema_a])
     | GetPlayerAchievements key steamid appid l \<Rightarrow> NetError
     | GetGlobalAchievementPercentagesForApp appid \<Rightarrow> Http 500 OtherJson), disk = Written\<rparr>"

definition env_down_unwritable :: env where
  "env_down_unwritable = \<lparr>server = (\<lambda>n rq. NetError), disk = OpenFails\<rparr>"

section \<open>Rendering of the keys\<close>

lemma digit_char_mem: "digit_char d \<in> set ''0123456789''"
  unfolding digit_char_def by (rule nth_mem) simp

lemma str_nat_last: "str_nat n \<noteq> [] \<and> last (str_nat n) = digit_char (n mod 10)"
  by (subst (1 2) str_nat.simps) (simp add: digit_char_def)

lemma str_int_last: "str_int i \<noteq> [] \<and> last (str_int i) \<in> set ''0123456789''"
  using str_nat_last digit_char_mem by (simp add: str_int_def)

lemma repr_str_last: "repr_str x \<noteq> [] \<and> (last (repr_str x) = CHR 0x27 \<or> last (repr_str x) = CHR 0x22)"
  by (simp add: repr_str_def repr_quote_def Let_def)

lemma int_key_neq_str_key: "str_key g s (PyInt a) \<noteq> str_key g' s' (PyStr x)"
proof
  assume eq: "str_key g s (PyInt a) = str_key g' s' (PyStr x)"
  let ?A = "''('' @ repr_str g @ '', '' @ repr_str s @ '', ''"
  let ?B = "''('' @ repr_str g' @ '', '' @ repr_str s' @ '', ''"
  from eq have "(?A @ str_int a) @ '')'' = (?B @ repr_str x) @ '')''"
    by (simp add: str_key_def)
  then have "?A @ str_int a = ?B @ repr_str x" by (simp only: append_same_eq)
  then have "last (?A @ str_int a) = last (?B @ repr_str x)" by simp
  moreover have "last (?A @ str_int a) = last (str_int a)"
    using str_int_last [of a] by simp
  moreover have "last (?B @ repr_str x) = last (repr_str x)"
    using repr_str_last [of x] by simp
  ultimately have "last (str_int a) = last (repr_str x)" by simp
  with str_int_last [of a] repr_str_last [of x] show False by auto
qed

section \<open>The fetch loops\<close>

lemma all_next_append:
  "all_next e n (xs @ ys) = (all_next e n xs \<and> all_next e (n + length xs) ys)"
  by (induction xs arbitrary: n) auto

lemma all_next_nth:
  "all_next e n xs \<Longrightarrow> i < length xs \<Longrightarrow> attempt_body (server e (n + i) (xs ! i)) = Next"
proof (induction xs arbitrary: n i)
  case Nil
  then show ?case by simp
next
  case (Cons x xs)
  show ?case
  proof (cases i)
    case 0
    with Cons.prems show ?thesis by simp
  next
    case (Suc j)
    with Cons.prems have "attempt_body (server e (Suc n + j) (xs ! j)) = Next"
      by (intro Cons.IH) auto
    with Suc show ?thesis by simp
  qed
qed

lemma loop_run_refl: "loop_run e w Next w"
  by (simp add: loop_run_def frame_def)

lemma loop_run_trans:
  assumes "loop_run e w Next w1" and "loop_run e w1 r w2"
  shows "loop_run e w r w2"
proof -
  from assms(1) obtain n1 where f1: "frame w w1" and w1: "sent w1 = sent w @ n1"
    and a1: "all_next e (length (sent w)) n1"
    by (auto simp: loop_run_def)
  from assms(2) obtain n2 where f2: "frame w1 w2" and w2: "sent w2 = sent w1 @ n2"
    and r2: "case r of Next \<Rightarrow> all_next e (length (sent w1)) n2
         | Return x \<Rightarrow> (\<exists>pre rq. n2 = pre @ [rq] \<and> all_next e (length (sent w1)) pre \<and>
                attempt_body (server e (length (sent w1) + length pre) rq) = Return x)"
    by (auto simp: loop_run_def)
  have f: "frame w w2" using f1 f2 by (simp add: frame_def)
  have w2': "sent w2 = sent w @ (n1 @ n2)" using w1 w2 by simp
  show ?thesis
  proof (cases r)
    case Next
    with r2 a1 w1 have "all_next e (length (sent w)) (n1 @ n2)"
      by (simp add: all_next_append)
    with f w2' Next show ?thesis unfolding loop_run_def by auto
  next
    case (Return x)
    with r2 obtain pre rq where n2: "n2 = pre @ [rq]"
      and p: "all_next e (length (sent w1)) pre"
      and l: "attempt_body (server e (length (sent w1) + length pre) rq) = Return x"
      by auto
    have 1: "n1 @ n2 = (n1 @ pre) @ [rq]" using n2 by simp
    have 2: "all_next e (length (sent w)) (n1 @ pre)"
      using a1 p w1 by (simp add: all_next_append)
    have 3: "attempt_body (server e (length (sent w) + length (n1 @ pre)) rq) = Return x"
      using l w1 by (simp add: add.assoc)
    have "\<exists>pre' rq'. n1 @ n2 = pre' @ [rq'] \<and> all_next e (length (sent w)) pre' \<and>
            attempt_body (server e (length (sent w) + length pre') rq') = Return x"
      using 1 2 3 by blast
    with f w2' Return show ?thesis unfolding loop_run_def by auto
  qed
qed

lemma http_get_run:
  assumes "http_get e rq w = (resp, w')"
  shows "loop_run e w (attempt_body resp) w'"
proof -
  from assms have r: "resp = server e (length (sent w)) rq" and w': "w' = w\<lparr>sent := sent w @ [rq]\<rparr>"
    by (auto simp: http_get_def)
  show ?thesis
  proof (cases "attempt_body resp")
    case Next
    with r w' show ?thesis unfolding loop_run_def by (simp add: frame_def)
  next
    case (Return x)
    with r w' show ?thesis unfolding loop_run_def by (simp add: frame_def)
  qed
qed

lemma attempt_loop_run: "attempt_loop e rq as w = (r, w') \<Longrightarrow> loop_run e w r w'"
proof (induction as arbitrary: w)
  case Nil
  then show ?case by (simp add: loop_run_refl)
next
  case (Cons a as)
  obtain resp w1 where g: "http_get e rq w = (resp, w1)" by (cases "http_get e rq w")
  note run1 = http_get_run [OF g]
  show ?case
  proof (cases "attempt_body resp")
    case Next
    with Cons.prems g have "attempt_loop e rq as w1 = (r, w')" by simp
    then have "loop_run e w1 r w'" by (rule Cons.IH)
    with run1 Next show ?thesis by (auto intro: loop_run_trans)
  next
    case (Return x)
    with Cons.prems g have "r = Return x" "w' = w1" by simp_all
    with run1 Return show ?thesis by simp
  qed
qed

lemma lang_loop_run: "lang_loop e mk langs w = (r, w') \<Longrightarrow> loop_run e w r w'"
proof (induction langs arbitrary: w)
  case Nil
  then show ?case by (simp add: loop_run_refl)
next
  case (Cons lang langs)
  obtain r1 w1 where a: "attempt_loop e (mk lang) [0, 1, 2] w = (r1, w1)"
    by (cases "attempt_loop e (mk lang) [0, 1, 2] w")
  note run1 = attempt_loop_run [OF a]
  show ?case
  proof (cases r1)
    case Next
    with Cons.prems a have "lang_loop e mk langs w1 = (r, w')" by simp
    then have "loop_run e w1 r w'" by (rule Cons.IH)
    with run1 Next show ?thesis by (auto intro: loop_run_trans)
  next
    case (Return x)
    with Cons.prems a have "r = Return x" "w' = w1" by simp_all
    with run1 Return show ?thesis by simp
  qed
qed

lemma get_player_achievements_frame:
  assumes "get_player_achievements e k g s a w = (r, w')"
  shows "initial_achievements w' = initial_achievements w \<and>
         achievements_file w' = achievements_file w \<and>
         details_cache w' = details_cache w"
proof (cases "str_int a \<in> achievement_blacklist w")
  case True
  with assms show ?thesis by (simp add: get_player_achievements_def)
next
  case False
  obtain fl w1 where l: "lang_loop e (GetPlayerAchievements k s a) [''schinese'', ''english'', ''en''] w = (fl, w1)"
    by (cases "lang_loop e (GetPlayerAchievements k s a) [''schinese'', ''english'', ''en''] w")
  from lang_loop_run [OF l] have f: "frame w w1" by (simp add: loop_run_def)
  show ?thesis
  proof (cases fl)
    case Next
    with assms False l f show ?thesis
      by (auto simp: get_player_achievements_def save_blacklist_def frame_def
            split: if_splits disk_write.splits)
  next
    case (Return x)
    with assms False l f show ?thesis
      by (auto simp: get_player_achievements_def frame_def)
  qed
qed

lemmas fetch_defs = get_player_achievements_def http_get_def attempt_body_def truthy_def ach_def
  save_blacklist_def

lemma fetch_abc: "get_player_achievements env_abc ''k'' ''g'' ''s'' 1 world_ab =
   (Some {''a'', ''b'', ''c''}, world_ab\<lparr>sent := [GetPlayerAchievements ''k'' ''s'' 1 ''schinese'']\<rparr>)"
  by (simp add: fetch_defs env_abc_def world_ab_def cold_start_def)

lemma fetch_a: "get_player_achievements env_a ''k'' ''g'' ''s'' 1 world_ab =
   (Some {''a''}, world_ab\<lparr>sent := [GetPlayerAchievements ''k'' ''s'' 1 ''schinese'']\<rparr>)"
  by (simp add: fetch_defs env_a_def world_ab_def cold_start_def)

lemma fetch_down: "get_player_achievements env_down ''k'' ''g'' ''s'' 1 world_ab =
   (None, world_ab\<lparr>sent := replicate 3 (GetPlayerAchievements ''k'' ''s'' 1 ''schinese'') @
      replicate 3 (GetPlayerAchievements ''k'' ''s'' 1 ''english'') @ replicate 3 (GetPlayerAchievements ''k'' ''s'' 1 ''en''),
      achievement_blacklist := {str_int 1}, blacklist_file := Holds {str_int 1}\<rparr>)"
  by (simp add: fetch_defs env_down_def world_ab_def cold_start_def numeral_3_eq_3)

lemma fetch_private: "get_player_achievements env_private ''k'' ''g'' ''s'' 1 cold_start =
   (None, cold_start\<lparr>sent := replicate 3 (GetPlayerAchievements ''k'' ''s'' 1 ''schinese'') @
      replicate 2 (GetPlayerAchievements ''k'' ''s'' 1 ''english'')\<rparr>)"
  by (simp add: fetch_defs env_private_def world_ab_def cold_start_def numeral_3_eq_3 numeral_2_eq_2)

lemma attempt_loop_all_next:
  assumes "attempt_body (server e (length (sent w)) rq) = Next"
    and "attempt_body (server e (Suc (length (sent w))) rq) = Next"
    and "attempt_body (server e (Suc (Suc (length (sent w)))) rq) = Next"
  shows "attempt_loop e rq [0, 1, 2] w = (Next, w\<lparr>sent := sent w @ [rq, rq, rq]\<rparr>)"
  using assms by (simp add: http_get_def)


lemma fetch_down_cold: "get_player_achievements env_down ''k'' ''g'' ''s'' 1 cold_start =
   (None, cold_start\<lparr>sent := replicate 3 (GetPlayerAchievements ''k'' ''s'' 1 ''schinese'') @
      replicate 3 (GetPlayerAchievements ''k'' ''s'' 1 ''english'') @ replicate 3 (GetPlayerAchievements ''k'' ''s'' 1 ''en''),
      achievement_blacklist := {str_int 1}, blacklist_file := Holds {str_int 1}\<rparr>)"
  by (simp add: fetch_defs env_down_def cold_start_def numeral_3_eq_3)

section \<open>Reconciliation\<close>

lemma check_new_achievements_Some:
  assumes "get_player_achievements e k g s a w = (Some S, w1)"
  shows "check_new_achievements e k g s a w =
           (S - stored w (str_key g s (PyInt a)),
            save_achievements_cache e
              (w1\<lparr>initial_achievements := (initial_achievements w)(str_key g s (PyInt a) \<mapsto> S)\<rparr>))"
  using assms get_player_achievements_frame [OF assms]
  by (simp add: check_new_achievements_def stored_def Let_def)

lemma check_abc: "check_new_achievements env_abc ''k'' ''g'' ''s'' 1 world_ab =
  ({''c''},
   world_ab\<lparr>sent := [GetPlayerAchievements ''k'' ''s'' 1 ''schinese''],
     initial_achievements := [str_key ''g'' ''s'' (PyInt 1) \<mapsto> {''a'', ''b'', ''c''}],
     achievements_file := Holds [str_key ''g'' ''s'' (PyInt 1) \<mapsto> {''a'', ''b'', ''c''}]\<rparr>)"
proof -
  have "{''a'', ''b'', ''c''} - {''a'', ''b''} = {''c''}" by auto
  then show ?thesis
    unfolding check_new_achievements_Some [OF fetch_abc]
    by (simp add: stored_def save_achievements_cache_def env_abc_def world_ab_def cold_start_def)
qed

text \<open>
  Claim C1, as amended. Whenever \<^verbatim>\<open>check_new_achievements\<close> completes with a fetched set
  \<open>S\<close>, the new stored baseline of the identity is exactly \<open>S\<close>; it is a superset of the
  previous baseline if and only if \<open>S\<close> contains the previous baseline. A reconciliation
  whose fetched set lacks a stored achievement therefore shrinks the baseline too.
\<close>

theorem baseline_replaced:
  assumes "get_player_achievements e k g s a w = (Some S, w1)"
  shows "stored (snd (check_new_achievements e k g s a w)) (str_key g s (PyInt a)) = S \<and>
         (stored w (str_key g s (PyInt a)) \<subseteq>
            stored (snd (check_new_achievements e k g s a w)) (str_key g s (PyInt a))
          \<longleftrightarrow> stored w (str_key g s (PyInt a)) \<subseteq> S)"
  by (simp add: check_new_achievements_Some [OF assms] stored_def save_achievements_cache_def
        split: disk_write.splits)

theorem baseline_replaced_witness:
  "get_player_achievements env_abc ''k'' ''g'' ''s'' 1 world_ab =
     (Some {''a'', ''b'', ''c''}, world_ab\<lparr>sent := [GetPlayerAchievements ''k'' ''s'' 1 ''schinese'']\<rparr>) \<and>
   stored (snd (check_new_achievements env_abc ''k'' ''g'' ''s'' 1 world_ab))
     (str_key ''g'' ''s'' (PyInt 1)) = {''a'', ''b'', ''c''}"
  using baseline_replaced [OF fetch_abc] fetch_abc by simp

text \<open>
  Claim C1 as stated fails: with the baseline \<open>{a, b}\<close> stored and a fetch that reports only
  \<open>a\<close> as achieved, the call completes with the fetched set \<open>{a}\<close> and the new baseline is
  not a superset of the previous one.
\<close>

theorem monotone_baseline_counterexample:
  "fst (get_player_achievements env_a ''k'' ''g'' ''s'' 1 world_ab) = Some {''a''} \<and>
   stored world_ab (str_key ''g'' ''s'' (PyInt 1)) = {''a'', ''b''} \<and>
   stored (snd (check_new_achievements env_a ''k'' ''g'' ''s'' 1 world_ab))
     (str_key ''g'' ''s'' (PyInt 1)) = {''a''} \<and>
   \<not> stored world_ab (str_key ''g'' ''s'' (PyInt 1)) \<subseteq>
       stored (snd (check_new_achievements env_a ''k'' ''g'' ''s'' 1 world_ab))
         (str_key ''g'' ''s'' (PyInt 1))"
proof -
  have 1: "stored world_ab (str_key ''g'' ''s'' (PyInt 1)) = {''a'', ''b''}"
    by (simp add: stored_def world_ab_def)
  have 2: "stored (snd (check_new_achievements env_a ''k'' ''g'' ''s'' 1 world_ab))
     (str_key ''g'' ''s'' (PyInt 1)) = {''a''}"
    by (simp add: check_new_achievements_Some [OF fetch_a] stored_def save_achievements_cache_def
          split: disk_write.splits)
  have 3: "\<not> {''a'', ''b''} \<subseteq> {''a''}" by simp
  show ?thesis using fetch_a 1 2 3 by simp
qed

text \<open>
  Claim C2. For every identity and every fetched set \<open>S\<close>, \<^verbatim>\<open>check_new_achievements\<close>
  returns \<open>S\<close> minus the previously stored set (the empty set when none is stored) and
  stores \<open>S\<close> as the new baseline of that identity, whatever was stored, leaving the other
  entries as they were, whatever happens to the durable file. The rewrite of the file leaves
  it holding the new table when the write succeeds, untouched when the file cannot be
  opened, and damaged when the write fails after the file was opened; none of these
  outcomes reaches the caller.
\<close>

theorem reconcile_difference:
  assumes "get_player_achievements e k g s a w = (Some S, w1)"
  shows "fst (check_new_achievements e k g s a w) = S - stored w (str_key g s (PyInt a)) \<and>
         initial_achievements (snd (check_new_achievements e k g s a w)) =
           (initial_achievements w)(str_key g s (PyInt a) \<mapsto> S) \<and>
         achievements_file (snd (check_new_achievements e k g s a w)) =
           (case disk e of
              Written \<Rightarrow> Holds ((initial_achievements w)(str_key g s (PyInt a) \<mapsto> S))
            | OpenFails \<Rightarrow> achievements_file w
            | WriteFails \<Rightarrow> Damaged)"
  using get_player_achievements_frame [OF assms]
  by (simp add: check_new_achievements_Some [OF assms] save_achievements_cache_def
        split: disk_write.splits)

text \<open>The witness is Scenario A: stored \<open>{a, b}\<close>, fetched \<open>{a, b, c}\<close>, returned \<open>{c}\<close>.\<close>

theorem reconcile_difference_witness:
  "get_player_achievements env_abc ''k'' ''g'' ''s'' 1 world_ab =
     (Some {''a'', ''b'', ''c''}, world_ab\<lparr>sent := [GetPlayerAchievements ''k'' ''s'' 1 ''schinese'']\<rparr>) \<and>
   stored world_ab (str_key ''g'' ''s'' (PyInt 1)) = {''a'', ''b''} \<and>
   fst (check_new_achievements env_abc ''k'' ''g'' ''s'' 1 world_ab) = {''c''} \<and>
   initial_achievements (snd (check_new_achievements env_abc ''k'' ''g'' ''s'' 1 world_ab))
     (str_key ''g'' ''s'' (PyInt 1)) = Some {''a'', ''b'', ''c''}"
proof -
  have 1: "stored world_ab (str_key ''g'' ''s'' (PyInt 1)) = {''a'', ''b''}"
    by (simp add: stored_def world_ab_def)
  have 2: "{''a'', ''b'', ''c''} - {''a'', ''b''} = {''c''}" by auto
  show ?thesis using reconcile_difference [OF fetch_abc] fetch_abc 1 2 by simp
qed

text \<open>
  Claim C7. If the fetch step of \<^verbatim>\<open>check_new_achievements\<close> returns \<^verbatim>\<open>None\<close>, the call
  returns the empty set and leaves the whole unlock-state table, and its durable file,
  unchanged.
\<close>

theorem fetch_failure_isolation:
  assumes "fst (get_player_achievements e k g s a w) = None"
  shows "fst (check_new_achievements e k g s a w) = {} \<and>
         initial_achievements (snd (check_new_achievements e k g s a w)) = initial_achievements w \<and>
         achievements_file (snd (check_new_achievements e k g s a w)) = achievements_file w"
proof -
  obtain w1 where f: "get_player_achievements e k g s a w = (None, w1)"
    using assms by (cases "get_player_achievements e k g s a w") simp
  from get_player_achievements_frame [OF f] f show ?thesis
    by (simp add: check_new_achievements_def Let_def)
qed

theorem fetch_failure_isolation_witness:
  "fst (get_player_achievements env_down ''k'' ''g'' ''s'' 1 world_ab) = None \<and>
   fst (check_new_achievements env_down ''k'' ''g'' ''s'' 1 world_ab) = {} \<and>
   initial_achievements (snd (check_new_achievements env_down ''k'' ''g'' ''s'' 1 world_ab))
     (str_key ''g'' ''s'' (PyInt 1)) = Some {''a'', ''b''}"
proof -
  have h: "fst (get_player_achievements env_down ''k'' ''g'' ''s'' 1 world_ab) = None"
    by (simp add: fetch_down)
  have "initial_achievements world_ab (str_key ''g'' ''s'' (PyInt 1)) = Some {''a'', ''b''}"
    by (simp add: world_ab_def)
  with fetch_failure_isolation [OF h] h show ?thesis by simp
qed

text \<open>
  Claim C9. If \<^verbatim>\<open>check_new_achievements\<close> runs twice in a row for an identity and the fetch
  yields the same set both times, the second call returns the empty set.
\<close>

theorem reconcile_idempotent:
  assumes first: "get_player_achievements e k g s a w = (Some S, w1)"
    and second: "get_player_achievements e' k g s a (snd (check_new_achievements e k g s a w)) =
                   (Some S, w2)"
  shows "fst (check_new_achievements e' k g s a (snd (check_new_achievements e k g s a w))) = {}"
proof -
  have "stored (snd (check_new_achievements e k g s a w)) (str_key g s (PyInt a)) = S"
    by (simp add: check_new_achievements_Some [OF first] stored_def save_achievements_cache_def
          split: disk_write.splits)
  then show ?thesis by (simp add: check_new_achievements_Some [OF second])
qed

theorem reconcile_idempotent_witness:
  "fst (get_player_achievements env_abc ''k'' ''g'' ''s'' 1 world_ab) = Some {''a'', ''b'', ''c''} \<and>
   fst (get_player_achievements env_abc ''k'' ''g'' ''s'' 1
          (snd (check_new_achievements env_abc ''k'' ''g'' ''s'' 1 world_ab))) =
     Some {''a'', ''b'', ''c''} \<and>
   fst (check_new_achievements env_abc ''k'' ''g'' ''s'' 1
          (snd (check_new_achievements env_abc ''k'' ''g'' ''s'' 1 world_ab))) = {}"
proof -
  let ?w = "snd (check_new_achievements env_abc ''k'' ''g'' ''s'' 1 world_ab)"
  have second: "get_player_achievements env_abc ''k'' ''g'' ''s'' 1 ?w =
     (Some {''a'', ''b'', ''c''}, ?w\<lparr>sent := sent ?w @ [GetPlayerAchievements ''k'' ''s'' 1 ''schinese'']\<rparr>)"
    unfolding check_abc
    by (simp add: fetch_defs env_abc_def world_ab_def cold_start_def)
  from reconcile_idempotent [OF fetch_abc second] fetch_abc second show ?thesis by simp
qed

section \<open>Exhaustion and permission denial\<close>

text \<open>
  Claim C5, as amended. If the game is not blacklisted and none of the nine requests (three
  attempts for each of the three languages) produces an accepted response or a permission
  denial, as when all of them time out, \<^verbatim>\<open>get_player_achievements\<close> returns \<^verbatim>\<open>None\<close>
  after adding the game to the blacklist in memory, and the next call for the game returns
  \<^verbatim>\<open>None\<close> without any request. The entry is durable only if the rewrite of the blacklist
  file succeeds: the file then holds the new blacklist; it is untouched when it cannot be
  opened and damaged when the write fails after it was opened, and neither failure
  reaches the caller.
\<close>

theorem exhaustion_blacklists:
  assumes nb: "str_int a \<notin> achievement_blacklist w"
    and h: "\<forall>i<9. attempt_body (server e (length (sent w) + i)
              (GetPlayerAchievements k s a ([''schinese'', ''english'', ''en''] ! (i div 3)))) = Next"
  shows "fst (get_player_achievements e k g s a w) = None \<and>
         achievement_blacklist (snd (get_player_achievements e k g s a w)) =
           insert (str_int a) (achievement_blacklist w) \<and>
         blacklist_file (snd (get_player_achievements e k g s a w)) =
           (case disk e of
              Written \<Rightarrow> Holds (insert (str_int a) (achievement_blacklist w))
            | OpenFails \<Rightarrow> blacklist_file w
            | WriteFails \<Rightarrow> Damaged) \<and>
         length (sent (snd (get_player_achievements e k g s a w))) = length (sent w) + 9 \<and>
         get_player_achievements e' k' g' s' a (snd (get_player_achievements e k g s a w)) =
           (None, snd (get_player_achievements e k g s a w))"
proof -
  let ?n = "length (sent w)"
  let ?rq = "GetPlayerAchievements k s a"
  have h0: "attempt_body (server e ?n (?rq ''schinese'')) = Next" using h [rule_format, of 0] by simp
  have h1: "attempt_body (server e (Suc ?n) (?rq ''schinese'')) = Next" using h [rule_format, of 1] by simp
  have h2: "attempt_body (server e (Suc (Suc ?n)) (?rq ''schinese'')) = Next" using h [rule_format, of 2] by simp
  have h3: "attempt_body (server e (?n + 3) (?rq ''english'')) = Next" using h [rule_format, of 3] by simp
  have h4: "attempt_body (server e (?n + 4) (?rq ''english'')) = Next" using h [rule_format, of 4] by simp
  have h5: "attempt_body (server e (?n + 5) (?rq ''english'')) = Next" using h [rule_format, of 5] by simp
  have h6: "attempt_body (server e (?n + 6) (?rq ''en'')) = Next" using h [rule_format, of 6] by simp
  have h7: "attempt_body (server e (?n + 7) (?rq ''en'')) = Next" using h [rule_format, of 7] by simp
  have h8: "attempt_body (server e (?n + 8) (?rq ''en'')) = Next" using h [rule_format, of 8] by simp
  define w1 where "w1 = w\<lparr>sent := sent w @ [?rq ''schinese'', ?rq ''schinese'', ?rq ''schinese'']\<rparr>"
  define w2 where "w2 = w1\<lparr>sent := sent w1 @ [?rq ''english'', ?rq ''english'', ?rq ''english'']\<rparr>"
  define w3 where "w3 = w2\<lparr>sent := sent w2 @ [?rq ''en'', ?rq ''en'', ?rq ''en'']\<rparr>"
  have l1: "length (sent w1) = ?n + 3" by (simp add: w1_def)
  have l2: "length (sent w2) = ?n + 6" by (simp add: w2_def l1)
  have a1: "attempt_loop e (?rq ''schinese'') [0, 1, 2] w = (Next, w1)"
    unfolding w1_def using h0 h1 h2 by (rule attempt_loop_all_next)
  have a2: "attempt_loop e (?rq ''english'') [0, 1, 2] w1 = (Next, w2)"
    unfolding w2_def
  proof (rule attempt_loop_all_next)
    show "attempt_body (server e (length (sent w1)) (?rq ''english'')) = Next"
      using h3 by (simp add: l1 ac_simps)
    show "attempt_body (server e (Suc (length (sent w1))) (?rq ''english'')) = Next"
      using h4 by (simp add: l1 ac_simps)
    show "attempt_body (server e (Suc (Suc (length (sent w1)))) (?rq ''english'')) = Next"
      using h5 by (simp add: l1 ac_simps)
  qed
  have a3: "attempt_loop e (?rq ''en'') [0, 1, 2] w2 = (Next, w3)"
    unfolding w3_def
  proof (rule attempt_loop_all_next)
    show "attempt_body (server e (length (sent w2)) (?rq ''en'')) = Next"
      using h6 by (simp add: l2 ac_simps)
    show "attempt_body (server e (Suc (length (sent w2))) (?rq ''en'')) = Next"
      using h7 by (simp add: l2 ac_simps)
    show "attempt_body (server e (Suc (Suc (length (sent w2)))) (?rq ''en'')) = Next"
      using h8 by (simp add: l2 ac_simps)
  qed
  have run: "lang_loop e ?rq [''schinese'', ''english'', ''en''] w = (Next, w3)"
    by (simp only: lang_loop.simps a1 a2 a3 prod.case flow.case)
  have f3: "achievement_blacklist w3 = achievement_blacklist w" "blacklist_file w3 = blacklist_file w"
    "length (sent w3) = ?n + 9"
    by (simp_all add: w3_def w2_def w1_def)
  show ?thesis using nb run f3
    by (simp add: get_player_achievements_def save_blacklist_def split: disk_write.splits)
qed

theorem exhaustion_blacklists_witness:
  "str_int 1 \<notin> achievement_blacklist cold_start \<and>
   attempt_body NetError = Next \<and>
   fst (get_player_achievements env_down ''k'' ''g'' ''s'' 1 cold_start) = None \<and>
   achievement_blacklist (snd (get_player_achievements env_down ''k'' ''g'' ''s'' 1 cold_start)) =
     {str_int 1} \<and>
   blacklist_file (snd (get_player_achievements env_down ''k'' ''g'' ''s'' 1 cold_start)) =
     Holds {str_int 1} \<and>
   length (sent (snd (get_player_achievements env_down ''k'' ''g'' ''s'' 1 cold_start))) = 9"
proof -
  have nb: "str_int 1 \<notin> achievement_blacklist cold_start" by (simp add: cold_start_def)
  have h: "\<forall>i<9. attempt_body (server env_down (length (sent cold_start) + i)
      (GetPlayerAchievements ''k'' ''s'' 1 ([''schinese'', ''english'', ''en''] ! (i div 3)))) = Next"
    by (simp add: env_down_def attempt_body_def)
  have d: "disk env_down = Written" "achievement_blacklist cold_start = {}" "sent cold_start = []"
    by (simp_all add: env_down_def cold_start_def)
  have n: "attempt_body NetError = Next" by (simp add: attempt_body_def)
  from exhaustion_blacklists [OF nb h, of "''g''" env_down "''k''" "''g''" "''s''"] nb n d
  show ?thesis by simp
qed

text \<open>
  Claim C5 as stated fails: on a disk whose blacklist file cannot be opened for writing,
  nine failed attempts add game 1 to the blacklist in memory only. No file is written, and
  a monitor constructed afterwards on the same directory does not have the game in its
  blacklist.
\<close>

theorem durable_blacklist_counterexample:
  "str_int 1 \<notin> achievement_blacklist cold_start \<and>
   attempt_body NetError = Next \<and>
   fst (get_player_achievements env_down_unwritable ''k'' ''g'' ''s'' 1 cold_start) = None \<and>
   str_int 1 \<in> achievement_blacklist
     (snd (get_player_achievements env_down_unwritable ''k'' ''g'' ''s'' 1 cold_start)) \<and>
   blacklist_file (snd (get_player_achievements env_down_unwritable ''k'' ''g'' ''s'' 1 cold_start)) =
     Absent \<and>
   str_int 1 \<notin> achievement_blacklist
     (init True True (snd (get_player_achievements env_down_unwritable ''k'' ''g'' ''s'' 1 cold_start)))"
proof -
  have f: "get_player_achievements env_down_unwritable ''k'' ''g'' ''s'' 1 cold_start =
   (None, cold_start\<lparr>sent := replicate 3 (GetPlayerAchievements ''k'' ''s'' 1 ''schinese'') @
      replicate 3 (GetPlayerAchievements ''k'' ''s'' 1 ''english'') @ replicate 3 (GetPlayerAchievements ''k'' ''s'' 1 ''en''),
      achievement_blacklist := {str_int 1}\<rparr>)"
    by (simp add: fetch_defs env_down_unwritable_def cold_start_def numeral_3_eq_3)
  have n: "attempt_body NetError = Next" by (simp add: attempt_body_def)
  show ?thesis unfolding f using n by (simp add: cold_start_def init_def)
qed

text \<open>
  Claim C6. If any request of a call of \<^verbatim>\<open>get_player_achievements\<close> is answered with
  status 401, the call returns \<^verbatim>\<open>None\<close>, that request is the last one it sends, and the
  blacklist and its file are unchanged.
\<close>

theorem permission_denial_terminal:
  assumes run: "get_player_achievements e k g s a w = (r, w')"
    and lo: "length (sent w) \<le> i" and hi: "i < length (sent w')"
    and denied: "server e i (sent w' ! i) = Http 401 b"
  shows "r = None \<and> achievement_blacklist w' = achievement_blacklist w \<and>
         blacklist_file w' = blacklist_file w \<and> Suc i = length (sent w')"
proof (cases "str_int a \<in> achievement_blacklist w")
  case True
  with run have "w' = w" by (simp add: get_player_achievements_def)
  with lo hi show ?thesis by simp
next
  case False
  obtain fl w1 where l: "lang_loop e (GetPlayerAchievements k s a) [''schinese'', ''english'', ''en''] w = (fl, w1)"
    by (cases "lang_loop e (GetPlayerAchievements k s a) [''schinese'', ''english'', ''en''] w")
  note lr = lang_loop_run [OF l]
  then have f: "frame w w1" by (simp add: loop_run_def)
  have body: "attempt_body (server e i (sent w' ! i)) = Return None"
    using denied by (simp add: attempt_body_def)
  define j where "j = i - length (sent w)"
  have i: "i = length (sent w) + j" using lo by (simp add: j_def)
  show ?thesis
  proof (cases fl)
    case Next
    with run False l have w': "sent w' = sent w1"
      by (auto simp: get_player_achievements_def save_blacklist_def split: disk_write.splits)
    from lr Next obtain new where w1: "sent w1 = sent w @ new"
      and an: "all_next e (length (sent w)) new"
      by (auto simp: loop_run_def)
    have "j < length new" using hi w' w1 i by simp
    from all_next_nth [OF an this] body w' w1 i show ?thesis by simp
  next
    case (Return x)
    with run False l have rw: "r = x" "w' = w1"
      by (auto simp: get_player_achievements_def)
    from lr Return obtain pre rq where w1: "sent w1 = sent w @ pre @ [rq]"
      and an: "all_next e (length (sent w)) pre"
      and last: "attempt_body (server e (length (sent w) + length pre) rq) = Return x"
      by (auto simp: loop_run_def)
    have jl: "j \<le> length pre" using hi rw w1 i by simp
    have "j = length pre"
    proof (rule ccontr)
      assume "j \<noteq> length pre"
      with jl have lt: "j < length pre" by simp
      from all_next_nth [OF an lt] body rw w1 i lt show False
        by (simp add: nth_append)
    qed
    with body last rw w1 i have "x = None" by (simp add: nth_append)
    with rw w1 i f \<open>j = length pre\<close> show ?thesis by (simp add: frame_def)
  qed
qed

theorem permission_denial_terminal_witness:
  "get_player_achievements env_private ''k'' ''g'' ''s'' 1 cold_start =
     (None, cold_start\<lparr>sent := replicate 3 (GetPlayerAchievements ''k'' ''s'' 1 ''schinese'') @
        replicate 2 (GetPlayerAchievements ''k'' ''s'' 1 ''english'')\<rparr>) \<and>
   server env_private 4 (GetPlayerAchievements ''k'' ''s'' 1 ''english'') = Http 401 OtherJson \<and>
   achievement_blacklist (snd (get_player_achievements env_private ''k'' ''g'' ''s'' 1 cold_start))
     = achievement_blacklist cold_start"
proof -
  let ?w' = "cold_start\<lparr>sent := replicate 3 (GetPlayerAchievements ''k'' ''s'' 1 ''schinese'') @
        replicate 2 (GetPlayerAchievements ''k'' ''s'' 1 ''english'')\<rparr>"
  have lo: "length (sent cold_start) \<le> 4" by (simp add: cold_start_def)
  have hi: "4 < length (sent ?w')" by simp
  have nth: "sent ?w' ! 4 = GetPlayerAchievements ''k'' ''s'' 1 ''english''"
    by (simp add: numeral_3_eq_3 numeral_2_eq_2 nth_Cons')
  have srv: "server env_private 4 (GetPlayerAchievements ''k'' ''s'' 1 ''english'') = Http 401 OtherJson"
    by (simp add: env_private_def)
  have denied: "server env_private 4 (sent ?w' ! 4) = Http 401 OtherJson"
    unfolding nth by (rule srv)
  from permission_denial_terminal [OF fetch_private lo hi denied] fetch_private srv
  show ?thesis by simp
qed

section \<open>The blacklist latch\<close>



section \<open>The details resolver\<close>

lemmas details_defs = get_achievement_details_def schema_body_def merge_percentages_def
  http_get_def truthy_def ach_def to_icon_url_def

lemma degraded_first: "get_achievement_details env_degraded ''g'' 1 ''english'' ''k'' ''s'' cold_start =
  ([(''a'', detail_a)],
   cold_start\<lparr>sent := [GetSchemaForGame 1 ''k'' ''english'',
                       GetPlayerAchievements ''k'' ''s'' 1 ''english'']\<rparr>)"
  by (simp add: details_defs env_degraded_def cold_start_def detail_a_def)

text \<open>
  Claim C4 does not hold of the degraded path. When the schema endpoint answers 400 and
  the per-player endpoint then answers with a described achievement, the call returns the
  mapping derived from that answer by the \<^verbatim>\<open>return details\<close> inside the loop, which does
  not reach the statement \<^verbatim>\<open>self.details_cache[cache_key] = details\<close> after the loop:
  nothing is cached, and the same call made again sends both requests again.
\<close>

theorem degraded_result_not_cached:
  "get_achievement_details env_degraded ''g'' 1 ''english'' ''k'' ''s'' cold_start =
     ([(''a'', detail_a)],
      cold_start\<lparr>sent := [GetSchemaForGame 1 ''k'' ''english'',
                          GetPlayerAchievements ''k'' ''s'' 1 ''english'']\<rparr>) \<and>
   details_cache (snd (get_achievement_details env_degraded ''g'' 1 ''english'' ''k'' ''s'' cold_start))
     (''g'', 1) = None \<and>
   sent (snd (get_achievement_details env_degraded ''g'' 1 ''english'' ''k'' ''s''
     (snd (get_achievement_details env_degraded ''g'' 1 ''english'' ''k'' ''s'' cold_start)))) =
   [GetSchemaForGame 1 ''k'' ''english'', GetPlayerAchievements ''k'' ''s'' 1 ''english'',
    GetSchemaForGame 1 ''k'' ''english'', GetPlayerAchievements ''k'' ''s'' 1 ''english'']"
proof -
  have 2: "details_cache (snd (get_achievement_details env_degraded ''g'' 1 ''english'' ''k'' ''s'' cold_start))
     (''g'', 1) = None"
    unfolding degraded_first by (simp add: cold_start_def)
  have 3: "sent (snd (get_achievement_details env_degraded ''g'' 1 ''english'' ''k'' ''s''
     (snd (get_achievement_details env_degraded ''g'' 1 ''english'' ''k'' ''s'' cold_start)))) =
   [GetSchemaForGame 1 ''k'' ''english'', GetPlayerAchievements ''k'' ''s'' 1 ''english'',
    GetSchemaForGame 1 ''k'' ''english'', GetPlayerAchievements ''k'' ''s'' 1 ''english'']"
    unfolding degraded_first
    by (simp add: details_defs env_degraded_def cold_start_def detail_a_def)
  show ?thesis using degraded_first 2 3 by simp
qed

text \<open>
  Claim C8 does not hold of a network error. When the percentages endpoint answers 500,
  the record built from the schema is returned with a null percentage. When the request
  to it raises, the exception is caught by the \<^verbatim>\<open>except\<close> around the whole iteration, the
  records of that language are dropped and the next language is tried; if the request
  raises for every language, the result is the empty mapping, which is then cached.
\<close>

theorem percent_network_error_drops_records:
  "fst (get_achievement_details env_percent_500 ''g'' 1 ''english'' ''k'' ''s'' cold_start) =
     [(''a'', \<lparr>d_name = ''A'', d_description = ''first'', d_icon = None, d_icon_gray = None,
              d_percent = None\<rparr>)] \<and>
   fst (get_achievement_details env_percent_down ''g'' 1 ''english'' ''k'' ''s'' cold_start) = [] \<and>
   details_cache (snd (get_achievement_details env_percent_down ''g'' 1 ''english'' ''k'' ''s'' cold_start))
     (''g'', 1) = Some []"
proof -
  have 1: "fst (get_achievement_details env_percent_500 ''g'' 1 ''english'' ''k'' ''s'' cold_start) =
     [(''a'', \<lparr>d_name = ''A'', d_description = ''first'', d_icon = None, d_icon_gray = None,
              d_percent = None\<rparr>)]"
    by (simp add: details_defs env_percent_500_def cold_start_def schema_a_def)
  have 2: "get_achievement_details env_percent_down ''g'' 1 ''english'' ''k'' ''s'' cold_start =
    ([], cold_start\<lparr>sent := [GetSchemaForGame 1 ''k'' ''english'', GetGlobalAchievementPercentagesForApp 1,
       GetSchemaForGame 1 ''k'' ''schinese'', GetGlobalAchievementPercentagesForApp 1,
       GetSchemaForGame 1 ''k'' ''english'', GetGlobalAchievementPercentagesForApp 1,
       GetSchemaForGame 1 ''k'' ''en'', GetGlobalAchievementPercentagesForApp 1],
       details_cache := [(''g'', 1) \<mapsto> []]\<rparr>)"
    by (simp add: details_defs env_percent_down_def cold_start_def schema_a_def)
  show ?thesis using 1 by (simp add: 2)
qed

section \<open>Keys of the unlock-state table\<close>

lemma frame_refl: "frame w w"
  by (simp add: frame_def)

lemma frame_trans: "frame w w1 \<Longrightarrow> frame w1 w2 \<Longrightarrow> frame w w2"
  by (simp add: frame_def)

lemma http_get_frame: "http_get e rq w = (r, w') \<Longrightarrow> frame w w'"
  by (auto simp: http_get_def frame_def)

lemma degraded_loop_step:
  assumes "degraded_loop e mk (lang2 # langs) d w = (r, w')"
    and "http_get e (mk lang2) w = (resp, w1)"
  shows "w' = w1 \<or> (\<exists>d'. degraded_loop e mk langs d' w1 = (r, w'))"
  using assms
  by (auto split: response.splits if_splits body.splits prod.splits bool.splits)

lemma degraded_loop_frame: "degraded_loop e mk langs d w = (r, w') \<Longrightarrow> frame w w'"
proof (induction langs arbitrary: d w)
  case Nil
  then show ?case by (simp add: frame_refl)
next
  case (Cons lang2 langs)
  obtain resp w1 where g: "http_get e (mk lang2) w = (resp, w1)" by (cases "http_get e (mk lang2) w")
  note f1 = http_get_frame [OF g]
  from degraded_loop_step [OF Cons.prems g]
  have "frame w1 w'"
  proof
    assume "w' = w1"
    then show ?thesis by (simp add: frame_refl)
  next
    assume "\<exists>d'. degraded_loop e mk langs d' w1 = (r, w')"
    then obtain d' where "degraded_loop e mk langs d' w1 = (r, w')" ..
    then show ?thesis by (rule Cons.IH)
  qed
  with f1 show ?case by (rule frame_trans)
qed

lemma merge_percentages_frame: "merge_percentages e appid achievements d w = (r, w') \<Longrightarrow> frame w w'"
proof -
  assume a: "merge_percentages e appid achievements d w = (r, w')"
  obtain resp w1 where g: "http_get e (GetGlobalAchievementPercentagesForApp appid) w = (resp, w1)"
    by (cases "http_get e (GetGlobalAchievementPercentagesForApp appid) w")
  from a g have "w' = w1"
    by (auto simp: merge_percentages_def Let_def split: response.splits option.splits if_splits)
  with http_get_frame [OF g] show ?thesis by simp
qed

lemma schema_body_step:
  assumes "schema_body e api_key steamid appid lang_list try_lang d w = (r, w')"
    and "http_get e (GetSchemaForGame appid api_key try_lang) w = (resp, w1)"
  shows "w' = w1 \<or>
         (\<exists>d' r'. degraded_loop e (GetPlayerAchievements api_key steamid appid) lang_list d' w1 = (r', w')) \<or>
         (\<exists>achievements d' r'. merge_percentages e appid achievements d' w1 = (r', w'))"
proof (cases resp)
  case NetError
  with assms show ?thesis by (simp add: schema_body_def)
next
  case (Http status b)
  show ?thesis
  proof (cases "status = 400")
    case True
    obtain r2 w2 where dl: "degraded_loop e (GetPlayerAchievements api_key steamid appid) lang_list d w1 = (r2, w2)"
      by (cases "degraded_loop e (GetPlayerAchievements api_key steamid appid) lang_list d w1")
    from assms Http True dl have "w' = w1 \<or> w' = w2"
      by (auto simp: schema_body_def split: if_splits prod.splits bool.splits)
    with dl show ?thesis by blast
  next
    case False
    show ?thesis
    proof (cases "status = 200 \<and> b \<noteq> BadJson")
      case False
      with assms Http \<open>status \<noteq> 400\<close> show ?thesis
        by (auto simp: schema_body_def split: if_splits)
    next
      case True
      show ?thesis
      proof (cases "schema_entries appid (case b of GameSchema achs \<Rightarrow> achs | _ \<Rightarrow> []) []")
        case None
        with assms Http True show ?thesis
          by (cases b) (simp_all add: schema_body_def)
      next
        case (Some achievements)
        with assms Http True have "merge_percentages e appid achievements d w1 = (r, w')"
          by (cases b) (simp_all add: schema_body_def)
        then show ?thesis by blast
      qed
    qed
  qed
qed

lemma schema_body_frame:
  assumes "schema_body e api_key steamid appid lang_list try_lang d w = (r, w')"
  shows "frame w w'"
proof -
  obtain resp w1 where g: "http_get e (GetSchemaForGame appid api_key try_lang) w = (resp, w1)"
    by (cases "http_get e (GetSchemaForGame appid api_key try_lang) w")
  from schema_body_step [OF assms g] have "frame w1 w'"
    by (auto simp: frame_refl dest: degraded_loop_frame merge_percentages_frame)
  with http_get_frame [OF g] show ?thesis by (rule frame_trans)
qed

lemma schema_loop_frame:
  "schema_loop e api_key steamid appid lang_list langs d w = (r, w') \<Longrightarrow> frame w w'"
proof (induction langs arbitrary: d w)
  case Nil
  then show ?case by (simp add: frame_refl)
next
  case (Cons try_lang langs)
  obtain r1 w1 where b: "schema_body e api_key steamid appid lang_list try_lang d w = (r1, w1)"
    by (cases "schema_body e api_key steamid appid lang_list try_lang d w")
  note f1 = schema_body_frame [OF b]
  show ?case
  proof (cases r1)
    case (Continue d')
    with Cons.prems b have "schema_loop e api_key steamid appid lang_list langs d' w1 = (r, w')" by simp
    then have "frame w1 w'" by (rule Cons.IH)
    with f1 show ?thesis by (rule frame_trans)
  next
    case (Break d')
    with Cons.prems b f1 show ?thesis by simp
  next
    case (Exit d')
    with Cons.prems b f1 show ?thesis by simp
  qed
qed

lemma get_achievement_details_frame:
  assumes "get_achievement_details e g a lang k s w = (d, w')"
  shows "initial_achievements w' = initial_achievements w \<and>
         achievements_file w' = achievements_file w \<and>
         achievement_blacklist w' = achievement_blacklist w \<and>
         blacklist_file w' = blacklist_file w"
proof (cases "str_int a \<in> achievement_blacklist w \<or> details_cache w (g, a) \<noteq> None")
  case True
  with assms have "w' = w"
    by (auto simp: get_achievement_details_def simp del: schema_loop.simps split: if_splits)
  then show ?thesis by simp
next
  case False
  let ?ll = "[lang, ''schinese'', ''english'', ''en'']"
  obtain r w1 where l: "schema_loop e k s a ?ll ?ll [] w = (r, w1)"
    by (cases "schema_loop e k s a ?ll ?ll [] w")
  from schema_loop_frame [OF l] have f: "frame w w1" .
  from False have nb: "str_int a \<notin> achievement_blacklist w" and nc: "details_cache w (g, a) = None"
    by simp_all
  have "w' = w1 \<or> w' = w1\<lparr>details_cache := (details_cache w1)((g, a) \<mapsto> d)\<rparr>"
    using assms unfolding get_achievement_details_def Let_def
    by (simp only: nb nc l if_False option.case prod.case) (cases r; simp)
  with f show ?thesis by (auto simp: frame_def)
qed

lemma int_keyed_empty: "int_keyed Map.empty"
  by (simp add: int_keyed_def)

lemma int_keyed_upd: "int_keyed t \<Longrightarrow> int_keyed (t(str_key g s (PyInt a) \<mapsto> S))"
  by (auto simp: int_keyed_def)

lemma int_keyed_del: "int_keyed t \<Longrightarrow> int_keyed (t(key := None))"
  by (auto simp: int_keyed_def)

lemma int_keyed_no_str_key:
  assumes "int_keyed t"
  shows "str_key g s (PyStr x) \<notin> dom t"
proof
  assume "str_key g s (PyStr x) \<in> dom t"
  with assms obtain g' s' a where "str_key g s (PyStr x) = str_key g' s' (PyInt a)"
    unfolding int_keyed_def by blast
  with int_key_neq_str_key [of g' s' a g s x] show False by simp
qed

lemma save_achievements_cache_int_keyed:
  "int_keyed (initial_achievements w) \<Longrightarrow>
   (case achievements_file w of Holds table \<Rightarrow> int_keyed table | _ \<Rightarrow> True) \<Longrightarrow>
   stored_int_keyed (save_achievements_cache e w)"
  by (simp add: stored_int_keyed_def save_achievements_cache_def split: disk_write.splits)

lemma reachable_int_keyed: "reachable w \<Longrightarrow> stored_int_keyed w"
proof (induction rule: reachable.induct)
  case cold
  show ?case by (simp add: stored_int_keyed_def cold_start_def int_keyed_empty)
next
  case (restart w table_loads blacklist_loads)
  then show ?case
    by (auto simp: stored_int_keyed_def init_def int_keyed_empty split: json_file.splits)
next
  case (fetch w e api_key group_id steamid appid)
  obtain r w' where g: "get_player_achievements e api_key group_id steamid appid w = (r, w')"
    by (cases "get_player_achievements e api_key group_id steamid appid w")
  from get_player_achievements_frame [OF g] fetch.IH g show ?case
    by (simp add: stored_int_keyed_def)
next
  case (details w e group_id appid lang api_key steamid)
  obtain d w' where g: "get_achievement_details e group_id appid lang api_key steamid w = (d, w')"
    by (cases "get_achievement_details e group_id appid lang api_key steamid w")
  from get_achievement_details_frame [OF g] details.IH g show ?case
    by (simp add: stored_int_keyed_def)
next
  case (check w e api_key group_id steamid appid)
  obtain r w' where g: "get_player_achievements e api_key group_id steamid appid w = (r, w')"
    by (cases "get_player_achievements e api_key group_id steamid appid w")
  note f = get_player_achievements_frame [OF g]
  show ?case
  proof (cases r)
    case None
    with g f check.IH show ?thesis
      by (simp add: check_new_achievements_def Let_def stored_int_keyed_def)
  next
    case (Some S)
    with g have c: "check_new_achievements e api_key group_id steamid appid w =
           (S - stored w (str_key group_id steamid (PyInt appid)),
            save_achievements_cache e
              (w'\<lparr>initial_achievements :=
                   (initial_achievements w)(str_key group_id steamid (PyInt appid) \<mapsto> S)\<rparr>))"
      by (simp add: check_new_achievements_Some)
    from check.IH f show ?thesis
      unfolding c snd_conv
      by (intro save_achievements_cache_int_keyed) (simp_all add: stored_int_keyed_def int_keyed_upd)
  qed
next
  case (clear w e group_id steamid appid)
  show ?case
  proof (cases "str_key group_id steamid (PyStr appid) \<in> dom (initial_achievements w)")
    case True
    have "stored_int_keyed (save_achievements_cache e
            (w\<lparr>initial_achievements :=
                 (initial_achievements w)(str_key group_id steamid (PyStr appid) := None)\<rparr>))"
      using clear.IH
      by (intro save_achievements_cache_int_keyed) (simp_all add: stored_int_keyed_def int_keyed_del)
    with True show ?thesis by (simp add: clear_game_achievements_def Let_def)
  next
    case False
    with clear.IH show ?thesis by (simp add: clear_game_achievements_def Let_def)
  qed
qed

lemma str_int_1: "str_int 1 = ''1''"
  unfolding str_int_def by (subst str_nat.simps) (simp add: digit_char_def)

lemma fetch_abc_cold: "get_player_achievements env_abc ''k'' ''g'' ''s'' 1 cold_start =
   (Some {''a'', ''b'', ''c''}, cold_start\<lparr>sent := [GetPlayerAchievements ''k'' ''s'' 1 ''schinese'']\<rparr>)"
  by (simp add: fetch_defs env_abc_def cold_start_def)

text \<open>
  Claim C10. The key that \<^verbatim>\<open>check_new_achievements\<close> writes for an \<^verbatim>\<open>int\<close> game id differs
  from the key that \<^verbatim>\<open>clear_game_achievements\<close> looks up for the same id given as a
  string. In every state that the monitor can reach, after \<^verbatim>\<open>check_new_achievements\<close> has
  stored a baseline \<open>S\<close> for \<open>(g, s, a)\<close>, the call
  \<^verbatim>\<open>clear_game_achievements(g, s, str(a))\<close> returns the state as it is: the baseline, the
  rest of the table and the durable file are unchanged.
\<close>

theorem clear_with_string_appid_is_noop:
  assumes "reachable w"
    and "get_player_achievements e api_key group_id steamid appid w = (Some S, w1)"
  shows "str_key group_id steamid (PyInt appid) \<noteq> str_key group_id steamid (PyStr (str_int appid)) \<and>
         initial_achievements (snd (check_new_achievements e api_key group_id steamid appid w))
           (str_key group_id steamid (PyInt appid)) = Some S \<and>
         clear_game_achievements e' group_id steamid (str_int appid)
           (snd (check_new_achievements e api_key group_id steamid appid w)) =
         snd (check_new_achievements e api_key group_id steamid appid w)"
proof -
  let ?w2 = "snd (check_new_achievements e api_key group_id steamid appid w)"
  have "reachable ?w2" using assms(1) by (rule reachable.check)
  then have "int_keyed (initial_achievements ?w2)"
    using reachable_int_keyed by (simp add: stored_int_keyed_def)
  then have "str_key group_id steamid (PyStr (str_int appid)) \<notin> dom (initial_achievements ?w2)"
    by (rule int_keyed_no_str_key)
  then have 3: "clear_game_achievements e' group_id steamid (str_int appid) ?w2 = ?w2"
    by (simp add: clear_game_achievements_def Let_def)
  have 2: "initial_achievements ?w2 (str_key group_id steamid (PyInt appid)) = Some S"
    unfolding check_new_achievements_Some [OF assms(2)]
    by (simp add: save_achievements_cache_def split: disk_write.splits)
  from 2 3 int_key_neq_str_key show ?thesis by simp
qed

theorem clear_with_string_appid_is_noop_witness:
  "reachable cold_start \<and>
   get_player_achievements env_abc ''k'' ''g'' ''s'' 1 cold_start =
     (Some {''a'', ''b'', ''c''}, cold_start\<lparr>sent := [GetPlayerAchievements ''k'' ''s'' 1 ''schinese'']\<rparr>) \<and>
   str_key ''g'' ''s'' (PyInt 1) = ''('' @ [CHR 0x27] @ ''g'' @ [CHR 0x27] @ '', '' @ [CHR 0x27] @ ''s'' @ [CHR 0x27] @ '', 1)'' \<and>
   str_key ''g'' ''s'' (PyStr (str_int 1)) = ''('' @ [CHR 0x27] @ ''g'' @ [CHR 0x27] @ '', '' @ [CHR 0x27] @ ''s'' @ [CHR 0x27] @ '', '' @ [CHR 0x27] @ ''1'' @ [CHR 0x27] @ '')'' \<and>
   initial_achievements (snd (check_new_achievements env_abc ''k'' ''g'' ''s'' 1 cold_start))
     (str_key ''g'' ''s'' (PyInt 1)) = Some {''a'', ''b'', ''c''} \<and>
   achievements_file (snd (check_new_achievements env_abc ''k'' ''g'' ''s'' 1 cold_start)) =
     Holds [str_key ''g'' ''s'' (PyInt 1) \<mapsto> {''a'', ''b'', ''c''}] \<and>
   clear_game_achievements env_abc ''g'' ''s'' (str_int 1)
     (snd (check_new_achievements env_abc ''k'' ''g'' ''s'' 1 cold_start)) =
   snd (check_new_achievements env_abc ''k'' ''g'' ''s'' 1 cold_start)"
proof -
  have k1: "str_key ''g'' ''s'' (PyInt 1) = ''('' @ [CHR 0x27] @ ''g'' @ [CHR 0x27] @ '', '' @ [CHR 0x27] @ ''s'' @ [CHR 0x27] @ '', 1)''"
    by (simp add: str_key_def repr_str_def repr_quote_def repr_char_def printable_def str_int_1
          Let_def)
  have k2: "str_key ''g'' ''s'' (PyStr (str_int 1)) = ''('' @ [CHR 0x27] @ ''g'' @ [CHR 0x27] @ '', '' @ [CHR 0x27] @ ''s'' @ [CHR 0x27] @ '', '' @ [CHR 0x27] @ ''1'' @ [CHR 0x27] @ '')''"
    by (simp add: str_key_def repr_str_def repr_quote_def repr_char_def printable_def str_int_1
          Let_def)
  have f: "achievements_file (snd (check_new_achievements env_abc ''k'' ''g'' ''s'' 1 cold_start)) =
     Holds [str_key ''g'' ''s'' (PyInt 1) \<mapsto> {''a'', ''b'', ''c''}]"
    unfolding check_new_achievements_Some [OF fetch_abc_cold]
    by (simp add: save_achievements_cache_def env_abc_def cold_start_def)
  from clear_with_string_appid_is_noop [OF reachable.cold fetch_abc_cold, of env_abc]
    reachable.cold fetch_abc_cold k1 k2 f
  show ?thesis by simp
qed

end
